theory Spec2Isabelle
  imports Main "HOL-Library.Log_Nat"
begin

section \<open>First-boot partition expansion (expand\_partitions.py)\<close>

text \<open>
  The script validates the partition table of the root device against a fixed template,
  computes one target size for the partitions that may grow, and then walks the template
  from the last entry to the first, moving and resizing partitions. This theory embeds the
  script's functions and its module-level code. The disk is an explicit state: the
  partition list, the device length and a trace of every effect on the device.
\<close>

subsection \<open>Python arithmetic: \<open>int(a / b)\<close>\<close>

text \<open>
  Lines 131 and 158 divide two integers with \<open>/\<close> and truncate with \<open>int\<close>. In
  Python 3, \<open>/\<close> on integers is the correctly rounded binary64 quotient (53 significant
  bits, ties to even). \<open>py_truediv a b\<close> is the pair \<open>(m, e)\<close> that stands for the
  double \<open>m * 2 ^ e\<close>, for \<open>0 < a\<close> and \<open>0 < b\<close> in the normal range of doubles.
\<close>

definition round_half_even :: "int \<Rightarrow> int \<Rightarrow> int" where
  "round_half_even n d =
     (let q = n div d; r = n mod d
      in if 2 * r < d then q
         else if d < 2 * r then q + 1
         else if even q then q else q + 1)"

definition ilog2_quot :: "int \<Rightarrow> int \<Rightarrow> int" where
  \<comment> \<open>the integer \<open>k\<close> with \<open>2 ^ k \<le> a / b < 2 ^ (k + 1)\<close>, for positive \<open>a\<close>, \<open>b\<close>\<close>
  "ilog2_quot a b =
     (let d = bitlen a - bitlen b
      in if (if 0 \<le> d then b * 2 ^ nat d \<le> a else b \<le> a * 2 ^ nat (- d)) then d else d - 1)"

definition py_truediv :: "int \<Rightarrow> int \<Rightarrow> int \<times> int" where
  "py_truediv a b =
     (let e = ilog2_quot a b - 52
      in if 0 \<le> e then (round_half_even a (b * 2 ^ nat e), e)
         else (round_half_even (a * 2 ^ nat (- e)) b, e))"

definition int_of_float :: "int \<times> int \<Rightarrow> int" where
  \<comment> \<open>\<open>int(x)\<close> of a non-negative double: truncation\<close>
  "int_of_float x = (case x of (m, e) \<Rightarrow> if 0 \<le> e then m * 2 ^ nat e else m div 2 ^ nat (- e))"

definition py_int_truediv :: "int \<Rightarrow> int \<Rightarrow> int" where
  \<comment> \<open>\<open>int(a / b)\<close> for \<open>b \<noteq> 0\<close>; the sign is handled symmetrically, as rounding and
      truncation are\<close>
  "py_int_truediv a b =
     (if a = 0 then 0
      else sgn a * sgn b * int_of_float (py_truediv \<bar>a\<bar> \<bar>b\<bar>))"

subsection \<open>Data model\<close>

text \<open>
  A \<open>parted.Geometry\<close> is a range of sectors with both bounds included: line 45 tests
  \<open>end <= space.end\<close> and line 183 takes free space to lie after a partition when
  \<open>free_space.start > geometry.end\<close>. Its length is therefore \<open>end - start + 1\<close>.
\<close>

record geometry =
  g_start :: int
  g_end :: int

definition getLength :: "geometry \<Rightarrow> int" where
  "getLength g = g_end g - g_start g + 1"

record partition =
  number :: nat
  geom :: geometry
  fs_type :: string

text \<open>Every effect of the script on the device, in the order it happens.\<close>

datatype event =
    Copied int int int       \<comment> \<open>source byte offset, destination byte offset, bytes written\<close>
  | Deleted nat              \<comment> \<open>\<open>disk.deletePartition\<close> of the partition with this number\<close>
  | Added nat int int string \<comment> \<open>\<open>disk.addPartition\<close>: number, start, end, filesystem type\<close>
  | Maximized nat int        \<comment> \<open>\<open>disk.maximizePartition\<close>: number, new end\<close>
  | Committed                \<comment> \<open>\<open>disk.commit()\<close>\<close>
  | Ran string nat           \<comment> \<open>external command on the partition with this number\<close>

record disk =
  dev_length :: int          \<comment> \<open>\<open>device.getLength()\<close>, in sectors\<close>
  sectorSize :: int          \<comment> \<open>\<open>device.sectorSize\<close>, in bytes\<close>
  partitions :: "partition list"  \<comment> \<open>\<open>disk.partitions\<close>, in the order of the table\<close>
  trace :: "event list"

text \<open>
  \<open>die\<close> logs a message and exits with status 1; an exception that nothing catches ends
  the script as well. Both are values, together with the disk as it is at that moment.
\<close>

datatype fatal =
    MorePartitions | FewerPartitions | DifferentType | DiskTooSmall
  | MoveIntoOccupied nat | DeletionFailed | CreationFailed | ResizeFailed nat

datatype exn = ValueError | IndexError | ZeroDivisionError | GeometryError

datatype failure = Die fatal | Raise exn

type_synonym 'a result = "(failure \<times> disk) + 'a"

definition emit :: "event \<Rightarrow> disk \<Rightarrow> disk" where
  "emit ev d = d\<lparr>trace := trace d @ [ev]\<rparr>"

subsection \<open>The partition-table library, as the script uses it\<close>

text \<open>
  The library is an external collaborator. What the script relies on is modelled here:
  free-space regions are the maximal sector ranges of the device that no partition claims,
  in ascending order (metadata and alignment gaps of a real table are left out);
  \<open>addPartition\<close> and \<open>maximizePartition\<close> with an exact-geometry constraint succeed
  exactly when the requested range lies on the device and meets no other partition; a new
  partition takes the lowest unused number and its place in the table by start sector;
  \<open>commit\<close> and the external commands succeed.
\<close>

fun gaps :: "int \<Rightarrow> partition list \<Rightarrow> int \<Rightarrow> geometry list" where
  "gaps pos [] hi = (if pos \<le> hi then [\<lparr>g_start = pos, g_end = hi\<rparr>] else [])"
| "gaps pos (p # ps) hi =
     (if pos < g_start (geom p) then [\<lparr>g_start = pos, g_end = g_start (geom p) - 1\<rparr>] else [])
     @ gaps (max pos (g_end (geom p) + 1)) ps hi"

definition getFreeSpaceRegions :: "disk \<Rightarrow> geometry list" where
  "getFreeSpaceRegions d = gaps 0 (partitions d) (dev_length d - 1)"

definition overlaps :: "geometry \<Rightarrow> geometry \<Rightarrow> bool" where
  "overlaps g h \<longleftrightarrow> g_start g \<le> g_end h \<and> g_start h \<le> g_end g"

definition fits :: "disk \<Rightarrow> geometry \<Rightarrow> partition list \<Rightarrow> bool" where
  "fits d g others \<longleftrightarrow>
     0 \<le> g_start g \<and> g_end g \<le> dev_length d - 1 \<and> \<not> list_ex (\<lambda>p. overlaps g (geom p)) others"

definition next_number :: "partition list \<Rightarrow> nat" where
  "next_number ps =
     (case find (\<lambda>k. k \<notin> set (map number ps)) [1 ..< length ps + 2] of
        Some k \<Rightarrow> k | None \<Rightarrow> length ps + 1)"

definition addPartition :: "disk \<Rightarrow> geometry \<Rightarrow> string \<Rightarrow> (nat \<times> disk) option" where
  "addPartition d g fscode =
     (if fits d g (partitions d)
      then (let k = next_number (partitions d);
                p = \<lparr>number = k, geom = g, fs_type = fscode\<rparr>
            in Some (k, emit (Added k (g_start g) (g_end g) fscode)
                          (d\<lparr>partitions := insort_key (\<lambda>q. g_start (geom q)) p (partitions d)\<rparr>)))
      else None)"

definition deletePartition :: "disk \<Rightarrow> partition \<Rightarrow> disk option" where
  "deletePartition d p =
     (if p \<in> set (partitions d)
      then Some (emit (Deleted (number p))
                   (d\<lparr>partitions := filter (\<lambda>q. number q \<noteq> number p) (partitions d)\<rparr>))
      else None)"

definition maximizePartition :: "disk \<Rightarrow> partition \<Rightarrow> geometry \<Rightarrow> disk option" where
  "maximizePartition d p g =
     (if p \<in> set (partitions d) \<and> fits d g (filter (\<lambda>q. number q \<noteq> number p) (partitions d))
      then Some (emit (Maximized (number p) (g_end g))
                   (d\<lparr>partitions := map (\<lambda>q. if number q = number p then q\<lparr>geom := g\<rparr> else q)
                                        (partitions d)\<rparr>))
      else None)"

definition commit :: "disk \<Rightarrow> disk" where
  "commit d = emit Committed d"

definition Geometry :: "disk \<Rightarrow> int \<Rightarrow> int \<Rightarrow> geometry result" where
  \<comment> \<open>\<open>parted.Geometry(device, start=, end=)\<close>: an empty range is refused\<close>
  "Geometry d s e = (if e < s then Inl (Raise GeometryError, d) else Inr \<lparr>g_start = s, g_end = e\<rparr>)"

subsection \<open>The script's functions\<close>

definition is_free_space :: "disk \<Rightarrow> int \<Rightarrow> int \<Rightarrow> bool" where
  "is_free_space d s e = list_ex (\<lambda>space. g_start space \<le> s \<and> e \<le> g_end space) (getFreeSpaceRegions d)"

definition create_partition :: "disk \<Rightarrow> int \<Rightarrow> int \<Rightarrow> string \<Rightarrow> string option \<Rightarrow> disk result" where
  "create_partition d s e fscode fstype =
     (case Geometry d s e of
        Inl f \<Rightarrow> Inl f
      | Inr geometry \<Rightarrow>
          (case addPartition d geometry fscode of
             None \<Rightarrow> Inl (Die CreationFailed, d)
           | Some (k, d1) \<Rightarrow>
               (let d2 = commit d1
                in case fstype of
                     None \<Rightarrow> Inr d2
                   | Some t \<Rightarrow> Inr (emit (Ran (''mkfs.'' @ t) k) d2))))"

definition resize_partition :: "disk \<Rightarrow> partition \<Rightarrow> int \<Rightarrow> disk result" where
  "resize_partition d p e =
     (let s = g_start (geom p)
      in case Geometry d s e of
           Inl f \<Rightarrow> Inl f
         | Inr new_geometry \<Rightarrow>
             (case maximizePartition d p new_geometry of
                None \<Rightarrow> Inl (Die (ResizeFailed (number p)), d)
              | Some d1 \<Rightarrow> Inr (emit (Ran ''/usr/sbin/resize2fs'' (number p)) (commit d1))))"

definition BUFF_SIZE :: int where
  "BUFF_SIZE = 64 * 1024"

text \<open>
  The copy loop of lines 104 to 112. The source range is a partition of the table, so every
  read returns the bytes asked for; the progress messages are left out.
\<close>

function copy_loop :: "int \<Rightarrow> int \<Rightarrow> int" where
  "copy_loop length_b written =
     (if written < length_b
      then copy_loop length_b (written + min (length_b - written) BUFF_SIZE)
      else written)"
  by pat_completeness auto
termination
  by (relation "measure (\<lambda>(length_b, written). nat (length_b - written))")
     (auto simp: BUFF_SIZE_def)

declare copy_loop.simps [simp del]

definition move_data :: "disk \<Rightarrow> partition \<Rightarrow> int \<Rightarrow> disk" where
  \<comment> \<open>lines 92 to 112: the byte offsets and the copy\<close>
  "move_data d p s =
     (let sec_size = sectorSize d;
          old_start_b = g_start (geom p) * sec_size;
          new_start_b = s * sec_size;
          length_b = getLength (geom p) * sec_size
      in emit (Copied old_start_b new_start_b (copy_loop length_b 0)) d)"

definition move_to :: "disk \<Rightarrow> partition \<Rightarrow> int \<Rightarrow> int \<Rightarrow> disk result" where
  \<comment> \<open>lines 85 to 117 of \<open>move_partition\<close>, once both bounds are known\<close>
  "move_to d p s e =
     (if \<not> is_free_space d s e then Inl (Die (MoveIntoOccupied (number p)), d)
      else (let d1 = move_data d p s;
                fscode = fs_type p
            in case deletePartition d1 p of
                 None \<Rightarrow> Inl (Die DeletionFailed, d1)
               | Some d2 \<Rightarrow> create_partition (commit d2) s e fscode None))"

definition move_partition :: "disk \<Rightarrow> partition \<Rightarrow> int option \<Rightarrow> int option \<Rightarrow> disk result" where
  "move_partition d p start_opt end_opt =
     (case (start_opt, end_opt) of
        (None, None) \<Rightarrow> Inl (Raise ValueError, d)
      | (Some s, Some e) \<Rightarrow> Inl (Raise ValueError, d)
      | (None, Some e) \<Rightarrow> move_to d p (e - getLength (geom p)) e
      | (Some s, None) \<Rightarrow> move_to d p s (s + getLength (geom p)))"

subsection \<open>The module-level code\<close>

type_synonym part_table = "(string \<times> string \<times> int) list"

definition MIN_OS_PART_SIZE :: "int \<Rightarrow> int" where
  "MIN_OS_PART_SIZE sec_size = py_int_truediv (4 * 1024 ^ 3) sec_size"

definition PART_TABLE :: "int \<Rightarrow> part_table" where
  "PART_TABLE sec_size =
     [(''fat'', ''fat32'', 0),
      (''ext4'', ''ext2'', MIN_OS_PART_SIZE sec_size),
      (''ext4'', ''ext2'', MIN_OS_PART_SIZE sec_size),
      (''fat'', ''fat32'', 0)]"

text \<open>Lines 145 to 152: the layout check. \<open>None\<close> means that the check passes.\<close>

definition family :: "string \<Rightarrow> string" where
  \<comment> \<open>\<open>'fat' if t.startswith('fat') else t\<close>\<close>
  "family t = (if take 3 t = ''fat'' then ''fat'' else t)"

definition actual_types :: "partition list \<Rightarrow> string list" where
  "actual_types ps = map (\<lambda>p. family (fs_type p)) ps"

definition expected_types :: "part_table \<Rightarrow> string list" where
  "expected_types pt = map fst pt"

definition check_layout :: "part_table \<Rightarrow> partition list \<Rightarrow> fatal option" where
  "check_layout pt ps =
     (if length (expected_types pt) < length (actual_types ps) then Some MorePartitions
      else if length (actual_types ps) < length (expected_types pt) then Some FewerPartitions
      else if expected_types pt \<noteq> actual_types ps then Some DifferentType
      else None)"

text \<open>Lines 154 to 161: the target size and the check against the minimum sizes.\<close>

definition dynamic_partitions :: "part_table \<Rightarrow> (nat \<times> int) list" where
  "dynamic_partitions pt =
     map (\<lambda>(n, (fs, partfs, size)). (n, size))
         (filter (\<lambda>(n, (fs, partfs, size)). 0 < size) (enumerate 0 pt))"

definition dynamic_part_nums :: "part_table \<Rightarrow> nat list" where
  "dynamic_part_nums pt = map (\<lambda>(n, size). n + 1) (dynamic_partitions pt)"

definition existing_parts_size :: "part_table \<Rightarrow> partition list \<Rightarrow> int" where
  "existing_parts_size pt ps =
     sum_list (map (\<lambda>p. getLength (geom p))
                   (filter (\<lambda>p. number p \<in> set (dynamic_part_nums pt)) ps))"

definition new_dynamic_part_size :: "part_table \<Rightarrow> disk \<Rightarrow> int result" where
  "new_dynamic_part_size pt d =
     (let free_spaces = getFreeSpaceRegions d
      in if free_spaces = [] then Inl (Raise IndexError, d)
         else if dynamic_partitions pt = [] then Inl (Raise ZeroDivisionError, d)
         else Inr (py_int_truediv
                     (getLength (last free_spaces) + existing_parts_size pt (partitions d))
                     (int (length (dynamic_partitions pt)))))"

definition size_check :: "part_table \<Rightarrow> int \<Rightarrow> bool" where
  \<comment> \<open>lines 159 to 161: true when the script dies\<close>
  "size_check pt sz = list_ex (\<lambda>(n, min_size). sz < min_size) (dynamic_partitions pt)"

text \<open>
  Lines 163 to 184: the loop over the template, last entry first. The list argument is what
  is left of \<open>reversed(list(enumerate(PART_TABLE)))\<close>.
\<close>

fun reconcile :: "nat list \<Rightarrow> int \<Rightarrow> (nat \<times> string \<times> string \<times> int) list \<Rightarrow> disk \<Rightarrow> disk result" where
  "reconcile nums sz [] d = Inr d"
| "reconcile nums sz ((n, fs, partfs, min_size) # rest) d =
     (let free_spaces = getFreeSpaceRegions d
      in if free_spaces = [] then Inr d
         else if length (partitions d) \<le> n then Inl (Raise IndexError, d)
         else
           (let free_space = last free_spaces;
                existing_part = partitions d ! n
            in if g_end free_space < g_start (geom existing_part) then reconcile nums sz rest d
               else if 0 < min_size then
                 (let new_end = g_end free_space;
                      new_start = g_end free_space - sz
                  in case nums of
                       [] \<Rightarrow> Inl (Raise IndexError, d)
                     | first # others \<Rightarrow>
                         (case (if first < number existing_part
                                then move_partition d existing_part (Some new_start) None
                                else Inr d) of
                            Inl f \<Rightarrow> Inl f
                          | Inr d1 \<Rightarrow>
                              if length (partitions d1) \<le> n then Inl (Raise IndexError, d1)
                              else (case resize_partition d1 (partitions d1 ! n) new_end of
                                      Inl f \<Rightarrow> Inl f
                                    | Inr d2 \<Rightarrow> reconcile nums sz rest d2)))
               else if g_end (geom existing_part) < g_start free_space then
                 (case move_partition d existing_part None (Some (g_end free_space)) of
                    Inl f \<Rightarrow> Inl f
                  | Inr d1 \<Rightarrow> reconcile nums sz rest d1)
               else reconcile nums sz rest d))"

definition main :: "part_table \<Rightarrow> disk \<Rightarrow> disk result" where
  "main pt d =
     (case check_layout pt (partitions d) of
        Some f \<Rightarrow> Inl (Die f, d)
      | None \<Rightarrow>
          (case new_dynamic_part_size pt d of
             Inl f \<Rightarrow> Inl f
           | Inr sz \<Rightarrow>
               if size_check pt sz then Inl (Die DiskTooSmall, d)
               else reconcile (dynamic_part_nums pt) sz (rev (enumerate 0 pt)) d))"

definition expand_partitions :: "disk \<Rightarrow> disk result" where
  \<comment> \<open>the whole script; line 131 divides by the sector size\<close>
  "expand_partitions d =
     (if sectorSize d = 0 then Inl (Raise ZeroDivisionError, d)
      else main (PART_TABLE (sectorSize d)) d)"

subsection \<open>Concrete devices\<close>

definition mkp :: "nat \<Rightarrow> int \<Rightarrow> int \<Rightarrow> string \<Rightarrow> partition" where
  "mkp k s e t = \<lparr>number = k, geom = \<lparr>g_start = s, g_end = e\<rparr>, fs_type = t\<rparr>"

text \<open>
  The device of the end-to-end scenario: 32 000 000 sectors of 512 bytes, four partitions
  on sectors 0 to 204 799, 204 800 to 10 593 407, 10 593 408 to 20 982 015 and
  20 982 016 to 21 186 815, free space from 21 186 816 to 31 999 999.
\<close>

definition scenario :: disk where
  "scenario =
     \<lparr>dev_length = 32000000, sectorSize = 512,
      partitions = [mkp 1 0 204799 ''fat16'', mkp 2 204800 10593407 ''ext4'',
                    mkp 3 10593408 20982015 ''ext4'', mkp 4 20982016 21186815 ''fat32''],
      trace = []\<rparr>"

text \<open>The same device flashed with a small image: two ext4 partitions of 1 GiB.\<close>

definition fresh_image :: disk where
  "fresh_image =
     \<lparr>dev_length = 32000000, sectorSize = 512,
      partitions = [mkp 1 0 204799 ''fat16'', mkp 2 204800 2301951 ''ext4'',
                    mkp 3 2301952 4399103 ''ext4'', mkp 4 4399104 4603903 ''fat32''],
      trace = []\<rparr>"

text \<open>
  The destination of a move request with one bound given (lines 81 to 84): the sector
  range that \<open>move_partition\<close> checks, copies to and recreates the partition on.
\<close>

definition destination :: "partition \<Rightarrow> int option \<Rightarrow> int option \<Rightarrow> geometry" where
  "destination p so eo =
     (case so of
        None \<Rightarrow> \<lparr>g_start = the eo - getLength (geom p), g_end = the eo\<rparr>
      | Some s \<Rightarrow> \<lparr>g_start = s, g_end = s + getLength (geom p)\<rparr>)"

text \<open>A device of 50 sectors with four partitions of 10 sectors: too small to expand.\<close>

definition tiny_device :: disk where
  "tiny_device =
     \<lparr>dev_length = 50, sectorSize = 512,
      partitions = [mkp 1 0 9 ''fat12'', mkp 2 10 19 ''ext4'',
                    mkp 3 20 29 ''ext4'', mkp 4 30 39 ''fat12''],
      trace = []\<rparr>"

text \<open>The small image after a successful run of the script.\<close>

definition expanded_image :: disk where
  "expanded_image =
     \<lparr>dev_length = 32000000, sectorSize = 512,
      partitions = [mkp 1 0 204799 ''fat16'', mkp 2 204800 15999997 ''ext4'',
                    mkp 3 15999998 31795198 ''ext4'', mkp 4 31795199 31999999 ''fat32''],
      trace = [Copied 2252341248 16279141888 104857600, Deleted 4, Committed,
               Added 4 31795199 31999999 ''fat32'', Committed,
               Copied 1178599424 8191998976 1073741824, Deleted 3, Committed,
               Added 3 15999998 18097150 ''ext4'', Committed,
               Maximized 3 31795198, Committed, Ran ''/usr/sbin/resize2fs'' 3,
               Maximized 2 15999997, Committed, Ran ''/usr/sbin/resize2fs'' 2]\<rparr>"

text \<open>
  A device of \<open>2 ^ 53 + 5\<close> sectors with four partitions of one sector each: the free
  space and the two dynamic partitions add up to \<open>2 ^ 53 + 3\<close> sectors.
\<close>

definition huge_device :: disk where
  "huge_device =
     \<lparr>dev_length = 2 ^ 53 + 5, sectorSize = 512,
      partitions = [mkp 1 0 0 ''fat12'', mkp 2 1 1 ''ext4'',
                    mkp 3 2 2 ''ext4'', mkp 4 3 3 ''fat12''],
      trace = []\<rparr>"

text \<open>
  What a claim observes of a run: the disk it ends with, whether the script finished, died
  or raised, and the number and start sector of the partitions whose number satisfies a
  predicate, in the order of the table.
\<close>

definition final_disk :: "disk result \<Rightarrow> disk" where
  "final_disk r = (case r of Inl (f, d) \<Rightarrow> d | Inr d \<Rightarrow> d)"




text \<open>
  The layout the script is written for (line 134): the partitions are numbered in the
  order of the table from \<open>k\<close> on, none is empty, the first starts at sector \<open>pos\<close>
  and each of the others starts right after the one before it.
\<close>

fun contiguous :: "int \<Rightarrow> nat \<Rightarrow> partition list \<Rightarrow> bool" where
  "contiguous pos k [] \<longleftrightarrow> True"
| "contiguous pos k (p # ps) \<longleftrightarrow>
     number p = k \<and> g_start (geom p) = pos \<and> g_start (geom p) \<le> g_end (geom p)
     \<and> contiguous (g_end (geom p) + 1) (Suc k) ps"

section \<open>Properties\<close>

subsection \<open>Auxiliary facts\<close>

lemma copy_loop_eq: "copy_loop l w = max l w"
  by (induction l w rule: copy_loop.induct) (subst copy_loop.simps, auto simp: BUFF_SIZE_def)

declare copy_loop_eq [code]

lemma MIN_OS_PART_SIZE_512: "MIN_OS_PART_SIZE 512 = 8388608"
  by code_simp

subsection \<open>The end-to-end scenario\<close>



subsection \<open>Moving a partition\<close>

text \<open>
  C10: called with both bounds or with neither, \<open>move_partition\<close> raises ValueError (it
  does not die); the disk and its trace are as before, so nothing was checked, copied or
  changed.
\<close>

theorem move_partition_ValueError:
  "move_partition d p None None = Inl (Raise ValueError, d)
   \<and> move_partition d p (Some s) (Some e) = Inl (Raise ValueError, d)"
  by (simp add: move_partition_def)

lemma create_partition_Inr:
  assumes "create_partition d s e fscode None = Inr d'"
  shows "\<exists>k. trace d' = trace d @ [Added k s e fscode, Committed]"
  using assms
  by (auto simp: create_partition_def Geometry_def addPartition_def commit_def emit_def Let_def
           split: if_splits)

lemma move_to_Inr:
  assumes "move_to d p s e = Inr d'"
  shows "\<exists>k b. trace d' =
           trace d @ [Copied (g_start (geom p) * sectorSize d) (s * sectorSize d) b,
                      Deleted (number p), Committed, Added k s e (fs_type p), Committed]"
proof -
  from assms obtain d2 where del: "deletePartition (move_data d p s) p = Some d2"
    and cr: "create_partition (commit d2) s e (fs_type p) None = Inr d'"
    by (auto simp: move_to_def Let_def split: if_splits option.splits)
  from del have t2: "trace d2 =
      trace d @ [Copied (g_start (geom p) * sectorSize d) (s * sectorSize d)
                   (copy_loop (getLength (geom p) * sectorSize d) 0), Deleted (number p)]"
    by (auto simp: deletePartition_def move_data_def emit_def Let_def split: if_splits)
  from create_partition_Inr [OF cr] t2 show ?thesis
    by (auto simp: commit_def emit_def)
qed

text \<open>
  Whenever a move succeeds, the partition it creates is one sector longer than the one it
  deleted: the missing bound is \<open>end - getLength\<close> or \<open>start + getLength\<close>, and a
  geometry includes both of its bounds.
\<close>

lemma move_partition_length:
  assumes "move_partition d p so eo = Inr d'"
  shows "\<exists>k b s e. trace d' =
           trace d @ [Copied (g_start (geom p) * sectorSize d) (s * sectorSize d) b,
                      Deleted (number p), Committed, Added k s e (fs_type p), Committed]
          \<and> getLength \<lparr>g_start = s, g_end = e\<rparr> = getLength (geom p) + 1"
proof (cases so)
  case None
  with assms obtain e where "eo = Some e"
    and m: "move_to d p (e - getLength (geom p)) e = Inr d'"
    by (cases eo) (auto simp: move_partition_def)
  from move_to_Inr [OF m] show ?thesis
    by (fastforce simp: getLength_def)
next
  case (Some s)
  with assms have "eo = None" and m: "move_to d p s (s + getLength (geom p)) = Inr d'"
    by (cases eo; auto simp: move_partition_def)+
  from move_to_Inr [OF m] show ?thesis
    by (fastforce simp: getLength_def)
qed

text \<open>
  C2 does not hold of the code: moving the last partition of the small image (204 800
  sectors) to the end of the device succeeds and recreates it on sectors 31 795 199 to
  31 999 999, which are 204 801 sectors.
\<close>

theorem moved_partition_is_longer:
  "getLength (geom (partitions fresh_image ! 3)) = 204800
   \<and> map (\<lambda>q. (number q, geom q, getLength (geom q)))
        (partitions (projr (move_partition fresh_image (partitions fresh_image ! 3)
                              None (Some 31999999)))) ! 3
      = (4, \<lparr>g_start = 31795199, g_end = 31999999\<rparr>, 204801)
   \<and> \<not> isl (move_partition fresh_image (partitions fresh_image ! 3) None (Some 31999999))"
  by code_simp

subsection \<open>Layout validation\<close>



subsection \<open>Moving into occupied space\<close>

text \<open>Free regions of a table in ascending order of start meet no partition.\<close>

lemma gaps_start: "g \<in> set (gaps pos ps hi) \<Longrightarrow> pos \<le> g_start g"
proof (induction ps arbitrary: pos)
  case Nil
  then show ?case by (auto split: if_splits)
next
  case (Cons p ps)
  show ?case
  proof (cases "g \<in> set (gaps (max pos (g_end (geom p) + 1)) ps hi)")
    case True
    from Cons.IH [OF True] show ?thesis by simp
  next
    case False
    with Cons.prems show ?thesis by (auto split: if_splits)
  qed
qed

lemma gaps_avoid:
  assumes "sorted (map (\<lambda>q. g_start (geom q)) ps)" "g \<in> set (gaps pos ps hi)" "q \<in> set ps"
  shows "g_end g < g_start (geom q) \<or> g_end (geom q) < g_start g"
  using assms
proof (induction ps arbitrary: pos)
  case Nil
  then show ?case by simp
next
  case (Cons p ps)
  show ?case
  proof (cases "g \<in> set (gaps (max pos (g_end (geom p) + 1)) ps hi)")
    case True
    show ?thesis
    proof (cases "q = p")
      case True
      from gaps_start [OF \<open>g \<in> set (gaps (max pos (g_end (geom p) + 1)) ps hi)\<close>] True
      show ?thesis by simp
    next
      case False
      with Cons.prems have "q \<in> set ps" by simp
      with Cons.IH [OF _ True] Cons.prems(1) show ?thesis by simp
    qed
  next
    case False
    with Cons.prems(2) have g: "g = \<lparr>g_start = pos, g_end = g_start (geom p) - 1\<rparr>"
      by (auto split: if_splits)
    from Cons.prems(1,3) have "g_start (geom p) \<le> g_start (geom q)"
      by auto
    with g show ?thesis by simp
  qed
qed

lemma occupied_not_free:
  assumes "sorted (map (\<lambda>q. g_start (geom q)) (partitions d))"
    and "q \<in> set (partitions d)" and "overlaps \<lparr>g_start = s, g_end = e\<rparr> (geom q)"
  shows "\<not> is_free_space d s e"
proof
  assume "is_free_space d s e"
  then obtain g where g: "g \<in> set (gaps 0 (partitions d) (dev_length d - 1))"
    and in_g: "g_start g \<le> s" "e \<le> g_end g"
    by (auto simp: is_free_space_def getFreeSpaceRegions_def list_ex_iff)
  from gaps_avoid [OF assms(1) g assms(2)] in_g assms(3) show False
    by (auto simp: overlaps_def)
qed

text \<open>
  C3: a move request whose destination meets the range of any partition of the table (or,
  which is what the code tests, lies in no single free region) makes the script die before
  anything is copied: the disk and its trace are returned unchanged. The message names the
  partition and differs from every other fatal message.
\<close>

theorem move_into_occupied:
  assumes one: "(so = None) \<noteq> (eo = None)"
    and occ: "(sorted (map (\<lambda>q. g_start (geom q)) (partitions d))
               \<and> (\<exists>q\<in>set (partitions d). overlaps (destination p so eo) (geom q)))
              \<or> \<not> is_free_space d (g_start (destination p so eo)) (g_end (destination p so eo))"
  shows "move_partition d p so eo = Inl (Die (MoveIntoOccupied (number p)), d)
         \<and> MoveIntoOccupied (number p)
             \<notin> {MorePartitions, FewerPartitions, DifferentType, DiskTooSmall,
                 DeletionFailed, CreationFailed}
         \<and> (\<forall>k. MoveIntoOccupied (number p) \<noteq> ResizeFailed k)"
proof -
  let ?g = "destination p so eo"
  have "\<lparr>g_start = g_start ?g, g_end = g_end ?g\<rparr> = ?g" by simp
  with occ occupied_not_free [of d _ "g_start ?g" "g_end ?g"]
  have nf: "\<not> is_free_space d (g_start ?g) (g_end ?g)"
    by metis
  show ?thesis
  proof (cases so)
    case None
    with one obtain e where e: "eo = Some e" by auto
    with None nf show ?thesis
      by (simp add: move_partition_def move_to_def destination_def)
  next
    case (Some s)
    with one have e: "eo = None" by auto
    with Some nf show ?thesis
      by (simp add: move_partition_def move_to_def destination_def)
  qed
qed

theorem move_into_occupied_witness:
  "move_partition scenario (partitions scenario ! 2) (Some 15999998) None
     = Inl (Die (MoveIntoOccupied 3), scenario)"
proof -
  have one: "(Some (15999998::int) = None) \<noteq> ((None::int option) = None)" by simp
  have srt: "sorted (map (\<lambda>q. g_start (geom q)) (partitions scenario))"
    by (simp add: scenario_def mkp_def)
  have ov: "\<exists>q\<in>set (partitions scenario).
              overlaps (destination (partitions scenario ! 2) (Some 15999998) None) (geom q)"
    by (simp add: scenario_def mkp_def destination_def overlaps_def getLength_def)
  from srt ov
  have occ: "(sorted (map (\<lambda>q. g_start (geom q)) (partitions scenario))
               \<and> (\<exists>q\<in>set (partitions scenario).
                     overlaps (destination (partitions scenario ! 2) (Some 15999998) None) (geom q)))
              \<or> \<not> is_free_space scenario
                    (g_start (destination (partitions scenario ! 2) (Some 15999998) None))
                    (g_end (destination (partitions scenario ! 2) (Some 15999998) None))"
    by blast
  have "number (partitions scenario ! 2) = 3"
    by (simp add: scenario_def mkp_def)
  with move_into_occupied [OF one occ] show ?thesis by simp
qed

subsection \<open>The sizing check\<close>

lemma create_partition_fatal:
  "create_partition d s e fscode fstype = Inl (f, d') \<Longrightarrow>
     f \<in> {Die CreationFailed, Raise GeometryError}"
  by (auto simp: create_partition_def Geometry_def Let_def split: if_splits option.splits)

lemma move_partition_fatal:
  "move_partition d p so eo = Inl (f, d') \<Longrightarrow>
     f \<in> {Die CreationFailed, Raise GeometryError, Die DeletionFailed,
           Die (MoveIntoOccupied (number p)), Raise ValueError}"
  by (auto simp: move_partition_def move_to_def Let_def
           split: if_splits option.splits dest: create_partition_fatal)

lemma resize_partition_fatal:
  "resize_partition d p e = Inl (f, d') \<Longrightarrow>
     f \<in> {Die (ResizeFailed (number p)), Raise GeometryError}"
  by (auto simp: resize_partition_def Geometry_def Let_def split: if_splits option.splits)

lemma reconcile_not_DiskTooSmall:
  "reconcile nums sz todo d \<noteq> Inl (Die DiskTooSmall, d')"
proof (induction todo arbitrary: d nums)
  case Nil
  show ?case by simp
next
  case (Cons x todo)
  obtain n fs partfs min_size where x: "x = (n, fs, partfs, min_size)"
    by (cases x) auto
  show ?case
    unfolding x
    by (auto simp: Let_def Cons.IH
             split: list.splits sum.splits if_splits
             dest: move_partition_fatal resize_partition_fatal)
qed

text \<open>
  C5: once the layout check has passed and a target size has been computed, the script
  dies with the too-small message exactly when the target is below the minimum of some
  dynamic entry, and then the disk is as it was: the check runs before the loop, and the
  loop never reports this message.
\<close>

theorem size_check_iff:
  assumes "check_layout pt (partitions d) = None"
    and "new_dynamic_part_size pt d = Inr sz"
  shows "((\<exists>d'. main pt d = Inl (Die DiskTooSmall, d'))
            \<longleftrightarrow> (\<exists>(n, min_size)\<in>set (dynamic_partitions pt). sz < min_size))
         \<and> (\<forall>d'. main pt d = Inl (Die DiskTooSmall, d') \<longrightarrow> d' = d)"
  using assms
  by (auto simp: main_def size_check_def list_ex_iff reconcile_not_DiskTooSmall)

theorem size_check_iff_witness:
  "check_layout (PART_TABLE 512) (partitions tiny_device) = None
   \<and> new_dynamic_part_size (PART_TABLE 512) tiny_device = Inr 15
   \<and> main (PART_TABLE 512) tiny_device = Inl (Die DiskTooSmall, tiny_device)"
proof -
  have lay: "check_layout (PART_TABLE 512) (partitions tiny_device) = None"
    by code_simp
  have sz: "new_dynamic_part_size (PART_TABLE 512) tiny_device = Inr 15"
    by code_simp
  have "(1, 8388608) \<in> set (dynamic_partitions (PART_TABLE 512))"
    by code_simp
  then have small: "\<exists>(n, min_size)\<in>set (dynamic_partitions (PART_TABLE 512)). 15 < min_size"
    by force
  from size_check_iff [OF lay sz] small
  have "main (PART_TABLE 512) tiny_device = Inl (Die DiskTooSmall, tiny_device)"
    by blast
  with lay sz show ?thesis by simp
qed

subsection \<open>A second run\<close>

text \<open>
  On a device without free space the script does not reach its loop: line 154 takes the
  last element of an empty list of free regions.
\<close>

lemma full_disk_IndexError:
  assumes "check_layout pt (partitions d) = None" and "getFreeSpaceRegions d = []"
  shows "main pt d = Inl (Raise IndexError, d)"
  using assms by (simp add: main_def new_dynamic_part_size_def)

text \<open>
  C9 does not hold of the code as stated. The run on the small image succeeds and leaves
  no free space. A second run on the resulting device changes nothing and copies nothing,
  but it never reaches the loop that would find no free space and stop: it ends with an
  IndexError raised on line 154.
\<close>

theorem second_run_raises:
  "expand_partitions fresh_image = Inr expanded_image
   \<and> getFreeSpaceRegions expanded_image = []
   \<and> expand_partitions expanded_image = Inl (Raise IndexError, expanded_image)"
  by code_simp

subsection \<open>The target size\<close>

text \<open>
  Below \<open>2 ^ 53\<close> the rounded quotient truncates to the exact floor: rounding up to the
  next integer would need a divisor of at least \<open>2 ^ (53 - k)\<close>, where \<open>2 ^ k\<close> bounds
  the quotient from below, and then the dividend is at least \<open>2 ^ 53\<close>.
\<close>

lemma bitlen_le_53: "0 < a \<Longrightarrow> a < 2 ^ 53 \<Longrightarrow> bitlen a \<le> 53"
  by (simp add: bitlen_le_iff_power)

lemma bitlen_ge_1: "0 < b \<Longrightarrow> 1 \<le> bitlen b"
  using bitlen_eq_zero_iff [of b] bitlen_nonneg [of b] by linarith

lemma ilog2_quot_le: "0 < a \<Longrightarrow> a < 2 ^ 53 \<Longrightarrow> 0 < b \<Longrightarrow> ilog2_quot a b \<le> 52"
  using bitlen_le_53 [of a] bitlen_ge_1 [of b]
  by (auto simp: ilog2_quot_def Let_def)

lemma powi_nat: "0 \<le> k \<Longrightarrow> (2::real) powi k = 2 ^ nat k"
  by (simp add: power_int_def)

lemma powi_neg: "k < 0 \<Longrightarrow> (2::real) powi k = 1 / 2 ^ nat (- k)"
  by (simp add: power_int_def field_simps)

lemma ilog2_quot_lower:
  assumes a: "0 < a" and b: "0 < b"
  shows "real_of_int b * 2 powi (ilog2_quot a b) \<le> real_of_int a"
proof -
  define d where "d = bitlen a - bitlen b"
  show ?thesis
  proof (cases "if 0 \<le> d then b * 2 ^ nat d \<le> a else b \<le> a * 2 ^ nat (- d)")
    case True
    then have k: "ilog2_quot a b = d"
      by (simp add: ilog2_quot_def d_def Let_def cong: if_cong)
    show ?thesis
    proof (cases "0 \<le> d")
      case nonneg: True
      with True have "b * 2 ^ nat d \<le> a" by simp
      then have "real_of_int (b * 2 ^ nat d) \<le> real_of_int a" by linarith
      with nonneg show ?thesis by (simp add: k powi_nat)
    next
      case neg: False
      with True have "b \<le> a * 2 ^ nat (- d)" by simp
      then have "real_of_int b \<le> real_of_int (a * 2 ^ nat (- d))" by linarith
      then have "real_of_int b \<le> real_of_int a * 2 ^ nat (- d)" by simp
      with neg show ?thesis by (simp add: k powi_neg field_simps)
    qed
  next
    case False
    then have k: "ilog2_quot a b = d - 1"
      by (simp add: ilog2_quot_def d_def Let_def cong: if_cong)
    from bitlen_bounds [OF a] have la: "2 ^ nat (bitlen a - 1) \<le> a" by simp
    from bitlen_bounds [OF b] have lb: "b < 2 ^ nat (bitlen b)" by simp
    from bitlen_ge_1 [OF a] have la1: "0 \<le> bitlen a - 1" by simp
    have "real_of_int b * 2 powi (d - 1) \<le> 2 powi (bitlen b) * 2 powi (d - 1)"
    proof -
      have "real_of_int b \<le> real_of_int (2 ^ nat (bitlen b))" using lb by linarith
      then have "real_of_int b \<le> 2 powi (bitlen b)"
        using bitlen_nonneg [of b] by (simp add: powi_nat)
      then show ?thesis by (simp add: mult_right_mono)
    qed
    also have "\<dots> = 2 powi (bitlen a - 1)"
      by (simp add: d_def power_int_add [symmetric])
    also have "\<dots> = real_of_int (2 ^ nat (bitlen a - 1))"
      using la1 by (simp add: powi_nat)
    also have "\<dots> \<le> real_of_int a" using la by linarith
    finally show ?thesis by (simp add: k)
  qed
qed

lemma round_half_even_cases:
  "0 < d \<Longrightarrow> round_half_even n d = n div d \<or> (round_half_even n d = n div d + 1 \<and> d \<le> 2 * (n mod d))"
  by (auto simp: round_half_even_def Let_def)


lemma round_up_stays:
  fixes x P b r r' q :: int
  assumes P: "0 < P" and b: "0 < b" and bP: "b < 2 * P"
    and N: "b * x + r' = (q * b + r) * P"
    and r: "0 \<le> r" "r < b" and r': "b \<le> 2 * r'" "r' < b"
    and xq: "x div P = q"
  shows "(x + 1) div P = q"
proof -
  have xm: "x = q * P + x mod P"
    using xq by (metis mult.commute div_mult_mod_eq)
  have m0: "0 \<le> x mod P" and m1: "x mod P < P"
    using P by simp_all
  have "x mod P + 1 < P"
  proof (rule ccontr)
    assume "\<not> x mod P + 1 < P"
    with m1 have "x mod P = P - 1" by linarith
    with xm have x: "x = q * P + P - 1" by linarith
    have "b * (q * P + P - 1) + r' = (q * b + r) * P"
      using N x by simp
    then have eq: "(b - r) * P = b - r'"
      by (simp add: algebra_simps)
    have "1 * P \<le> (b - r) * P"
      using r P by (intro mult_right_mono) auto
    with eq have "P \<le> b - r'" by simp
    with r' bP show False by linarith
  qed
  then have "x + 1 = q * P + (x mod P + 1)" "0 \<le> x mod P + 1" "x mod P + 1 < P"
    using xm m0 by linarith+
  then show ?thesis
    by (metis P div_pos_pos_trivial add.commute div_mult_self1 less_irrefl add.right_neutral mult.commute)
qed

lemma py_truediv_exact:
  assumes a: "0 < a" and a53: "a < 2 ^ 53" and b: "0 < b"
  shows "int_of_float (py_truediv a b) = a div b"
proof -
  define k where "k = ilog2_quot a b"
  have k52: "k \<le> 52" unfolding k_def by (rule ilog2_quot_le [OF a a53 b])
  have low: "real_of_int b * 2 powi k \<le> real_of_int a"
    unfolding k_def by (rule ilog2_quot_lower [OF a b])
  show ?thesis
  proof (cases "k = 52")
    case True
    with low have "real_of_int (b * 2 ^ 52) \<le> real_of_int a"
      by (simp add: power_int_def)
    then have "b * 2 ^ 52 \<le> a" by linarith
    with a53 b have b1: "b = 1" by simp
    have kk: "ilog2_quot a b = 52" using True by (simp add: k_def)
    have "py_truediv a b = (round_half_even a b, 0)"
      by (simp add: py_truediv_def kk)
    then show ?thesis
      by (simp add: b1 int_of_float_def round_half_even_def)
  next
    case False
    with k52 have klt: "k < 52" by simp
    define s where "s = nat (52 - k)"
    define P :: int where "P = 2 ^ s"
    have P: "0 < P" by (simp add: P_def)
    have s: "int s = 52 - k" using klt by (simp add: s_def)
    have bP: "b < 2 * P"
    proof (rule ccontr)
      assume "\<not> b < 2 * P"
      then have "2 * P \<le> b" by simp
      then have "real_of_int (2 * P) \<le> real_of_int b" by linarith
      moreover have "(2::real) powi (53 - k) = real_of_int (2 * P)"
      proof -
        have "nat (53 - k) = Suc s" using klt by (simp add: s_def)
        moreover have "(2::real) powi (53 - k) = 2 ^ nat (53 - k)"
          using klt by (intro powi_nat) simp
        ultimately show ?thesis by (simp add: P_def)
      qed
      ultimately have "2 powi (53 - k) \<le> real_of_int b"
        by simp
      then have "2 powi (53 - k) * 2 powi k \<le> real_of_int b * 2 powi k"
        by (simp add: mult_right_mono)
      then have "2 powi 53 \<le> real_of_int b * 2 powi k"
        by (simp add: power_int_add [symmetric])
      with low have "(2::real) ^ 53 \<le> real_of_int a" by (simp add: power_int_def)
      then have "real_of_int (2 ^ 53) \<le> real_of_int a" by simp
      then have "2 ^ 53 \<le> a" by linarith
      with a53 show False by simp
    qed
    have tr: "py_truediv a b = (round_half_even (a * P) b, k - 52)"
      using klt by (simp add: py_truediv_def k_def [symmetric] Let_def P_def s_def)
    have io: "int_of_float (py_truediv a b) = round_half_even (a * P) b div P"
      using klt by (simp add: tr int_of_float_def P_def s_def)
    define x where "x = (a * P) div b"
    define r' where "r' = (a * P) mod b"
    have xq: "x div P = a div b"
    proof -
      have "(a * P) div (b * P) = (a * P) div b div P"
        using P by (intro zdiv_zmult2_eq) simp
      moreover have "(a * P) div (b * P) = a div b"
        using P by simp
      ultimately show ?thesis
        unfolding x_def by (simp only:)
    qed
    from round_half_even_cases [OF b, of "a * P"]
    show ?thesis
    proof
      assume "round_half_even (a * P) b = a * P div b"
      with io xq show ?thesis by (simp add: x_def)
    next
      assume up: "round_half_even (a * P) b = a * P div b + 1 \<and> b \<le> 2 * (a * P mod b)"
      have N: "b * x + r' = (a div b * b + a mod b) * P"
        by (simp add: x_def r'_def)
      have "(x + 1) div P = a div b"
        using round_up_stays [OF P b bP N _ _ _ _ xq] up b
        by (simp add: r'_def)
      with io up show ?thesis by (simp add: x_def)
    qed
  qed
qed

lemma py_int_truediv_floor:
  assumes "0 \<le> a" "a < 2 ^ 53" "0 < b"
  shows "py_int_truediv a b = a div b"
  using assms py_truediv_exact [of a b]
  by (cases "a = 0") (auto simp: py_int_truediv_def)

text \<open>
  C4, as stated, fails: the quotient is a double, and a total of \<open>2 ^ 53 + 3\<close> sectors
  divided by 2 rounds to \<open>2 ^ 52 + 2\<close>, one more than the floor.
\<close>

theorem target_is_not_floor:
  "new_dynamic_part_size (PART_TABLE 512) huge_device = Inr 4503599627370498
   \<and> (getLength (last (getFreeSpaceRegions huge_device))
        + existing_parts_size (PART_TABLE 512) (partitions huge_device))
       div int (length (dynamic_partitions (PART_TABLE 512))) = 4503599627370497"
  by code_simp

text \<open>
  C4, amended: for every template with at least one dynamic entry and every device with
  free space, if the last free region and the current dynamic partitions together have
  fewer than \<open>2 ^ 53\<close> sectors, the target size is the exact floor of that total
  divided by the number of dynamic entries.
\<close>

theorem target_is_floor:
  assumes "getFreeSpaceRegions d \<noteq> []" and "dynamic_partitions pt \<noteq> []"
    and "tot = getLength (last (getFreeSpaceRegions d)) + existing_parts_size pt (partitions d)"
    and "0 \<le> tot" and "tot < 2 ^ 53"
  shows "new_dynamic_part_size pt d = Inr (tot div int (length (dynamic_partitions pt)))"
proof -
  from assms(2) have "0 < int (length (dynamic_partitions pt))" by simp
  from py_int_truediv_floor [OF assms(4,5) this] assms(1,2,3)
  show ?thesis by (simp add: new_dynamic_part_size_def)
qed

theorem target_is_floor_witness:
  "new_dynamic_part_size (PART_TABLE 512) scenario = Inr 15795200"
proof -
  have fs: "getFreeSpaceRegions scenario \<noteq> []" by code_simp
  have dp: "dynamic_partitions (PART_TABLE 512) \<noteq> []" by code_simp
  have tot: "(31590400::int) = getLength (last (getFreeSpaceRegions scenario))
               + existing_parts_size (PART_TABLE 512) (partitions scenario)"
    by code_simp
  have n: "length (dynamic_partitions (PART_TABLE 512)) = 2" by code_simp
  from target_is_floor [OF fs dp tot] show ?thesis by (simp add: n)
qed

subsection \<open>The anchor\<close>




















lemma final_disk_simps [simp]:
  "final_disk (Inl (f, d)) = d" "final_disk (Inr d) = d"
  by (simp_all add: final_disk_def)








lemma PART_TABLE_dynamic:
  "dynamic_partitions (PART_TABLE sec) \<noteq> [] \<Longrightarrow>
     0 < MIN_OS_PART_SIZE sec \<and> dynamic_part_nums (PART_TABLE sec) = [2, 3]"
  by (cases "0 < MIN_OS_PART_SIZE sec")
     (simp_all add: dynamic_partitions_def dynamic_part_nums_def PART_TABLE_def)

lemma PART_TABLE_rev:
  "rev (enumerate 0 (PART_TABLE sec)) =
     [(3, ''fat'', ''fat32'', 0), (2, ''ext4'', ''ext2'', MIN_OS_PART_SIZE sec),
      (1, ''ext4'', ''ext2'', MIN_OS_PART_SIZE sec), (0, ''fat'', ''fat32'', 0)]"
  by (simp add: PART_TABLE_def)




subsection \<open>A whole run on the intended layout\<close>

text \<open>
  The loop on a table of four contiguous partitions with free space at the end, one entry
  of the template at a time: the last partition moves to the tail, the third moves and
  grows, the second grows in place, and for the first no free space is left.
\<close>

lemma next_number_3:
  "number a = Suc 0 \<Longrightarrow> number b = 2 \<Longrightarrow> number c = 3 \<Longrightarrow> next_number [a, b, c] = 4"
  by (simp add: next_number_def upt_rec)

lemma next_number_124:
  "number a = Suc 0 \<Longrightarrow> number b = 2 \<Longrightarrow> number c = 4 \<Longrightarrow> next_number [a, b, c] = 3"
  by (simp add: next_number_def upt_rec)

lemma step3:
  assumes "0 \<le> e1" "e1 < e2" "e2 < e3" "e3 < e4" and room4: "e4 - e3 < L - 1 - e4"
  shows "reconcile nums sz ((3, f, g, 0) # rest)
           \<lparr>dev_length = L, sectorSize = sec,
            partitions = [mkp 1 0 e1 t1, mkp 2 (e1 + 1) e2 t2, mkp 3 (e2 + 1) e3 t3,
                          mkp 4 (e3 + 1) e4 t4],
            trace = tr\<rparr>
         = reconcile nums sz rest
           \<lparr>dev_length = L, sectorSize = sec,
            partitions = [mkp 1 0 e1 t1, mkp 2 (e1 + 1) e2 t2, mkp 3 (e2 + 1) e3 t3,
                          mkp 4 (L - 1 - (e4 - e3)) (L - 1) t4],
            trace = tr @ [Copied ((e3 + 1) * sec) ((L - 1 - (e4 - e3)) * sec)
                            (max ((e4 - e3) * sec) 0),
                          Deleted 4, Committed,
                          Added 4 (L - 1 - (e4 - e3)) (L - 1) t4, Committed]\<rparr>"
  using assms
  by (simp add: getFreeSpaceRegions_def move_partition_def move_to_def is_free_space_def
        deletePartition_def create_partition_def Geometry_def addPartition_def fits_def
        overlaps_def next_number_3 commit_def emit_def move_data_def copy_loop_eq getLength_def
        Let_def mkp_def)


lemma step2:
  assumes "0 \<le> e1" "e1 < e2" "e2 < e3" "s4 \<le> L - 1"
    and len3: "e3 - e2 \<le> sz" and room3: "e3 + 1 \<le> s4 - 1 - sz" and M: "0 < M" and sz: "0 \<le> sz"
  shows "reconcile (2 # others) sz ((2, f, g, M) # rest)
           \<lparr>dev_length = L, sectorSize = sec,
            partitions = [mkp 1 0 e1 t1, mkp 2 (e1 + 1) e2 t2, mkp 3 (e2 + 1) e3 t3,
                          mkp 4 s4 (L - 1) t4],
            trace = tr\<rparr>
         = reconcile (2 # others) sz rest
           \<lparr>dev_length = L, sectorSize = sec,
            partitions = [mkp 1 0 e1 t1, mkp 2 (e1 + 1) e2 t2, mkp 3 (s4 - 1 - sz) (s4 - 1) t3,
                          mkp 4 s4 (L - 1) t4],
            trace = tr @ [Copied ((e2 + 1) * sec) ((s4 - 1 - sz) * sec) (max ((e3 - e2) * sec) 0),
                          Deleted 3, Committed,
                          Added 3 (s4 - 1 - sz) (s4 - 1 - sz + (e3 - e2)) t3, Committed,
                          Maximized 3 (s4 - 1), Committed, Ran ''/usr/sbin/resize2fs'' 3]\<rparr>"
  using assms
  by (simp add: getFreeSpaceRegions_def move_partition_def move_to_def is_free_space_def
        deletePartition_def create_partition_def resize_partition_def maximizePartition_def
        Geometry_def addPartition_def fits_def
        overlaps_def next_number_124 commit_def emit_def move_data_def copy_loop_eq getLength_def
        Let_def mkp_def)

lemma step1:
  assumes "0 \<le> e1" "e1 < e2" "e2 + 1 < s3" "s3 \<le> e3" "e3 + 1 = s4" "s4 \<le> L - 1" and M: "0 < M"
  shows "reconcile (2 # others) sz ((1, f, g, M) # rest)
           \<lparr>dev_length = L, sectorSize = sec,
            partitions = [mkp 1 0 e1 t1, mkp 2 (e1 + 1) e2 t2, mkp 3 s3 e3 t3,
                          mkp 4 s4 (L - 1) t4],
            trace = tr\<rparr>
         = reconcile (2 # others) sz rest
           \<lparr>dev_length = L, sectorSize = sec,
            partitions = [mkp 1 0 e1 t1, mkp 2 (e1 + 1) (s3 - 1) t2, mkp 3 s3 e3 t3,
                          mkp 4 s4 (L - 1) t4],
            trace = tr @ [Maximized 2 (s3 - 1), Committed, Ran ''/usr/sbin/resize2fs'' 2]\<rparr>"
  using assms
  by (simp add: getFreeSpaceRegions_def resize_partition_def maximizePartition_def
        Geometry_def fits_def overlaps_def commit_def emit_def getLength_def Let_def mkp_def)

lemma full_disk:
  assumes "0 \<le> e1" "s2 = e1 + 1" "s2 \<le> e2" "s3 = e2 + 1" "s3 \<le> e3" "s4 = e3 + 1" "s4 \<le> L - 1"
  shows "getFreeSpaceRegions
           \<lparr>dev_length = L, sectorSize = sec,
            partitions = [mkp 1 0 e1 t1, mkp 2 s2 e2 t2, mkp 3 s3 e3 t3, mkp 4 s4 (L - 1) t4],
            trace = tr\<rparr> = []"
  using assms by (simp add: getFreeSpaceRegions_def mkp_def)

lemma contiguous_4:
  assumes "contiguous 0 1 [p1, p2, p3, p4]"
  shows "p1 = mkp 1 0 (g_end (geom p1)) (fs_type p1)
       \<and> p2 = mkp 2 (g_end (geom p1) + 1) (g_end (geom p2)) (fs_type p2)
       \<and> p3 = mkp 3 (g_end (geom p2) + 1) (g_end (geom p3)) (fs_type p3)
       \<and> p4 = mkp 4 (g_end (geom p3) + 1) (g_end (geom p4)) (fs_type p4)
       \<and> 0 \<le> g_end (geom p1) \<and> g_end (geom p1) < g_end (geom p2)
       \<and> g_end (geom p2) < g_end (geom p3) \<and> g_end (geom p3) < g_end (geom p4)"
  using assms by (simp add: mkp_def numeral_eq_Suc)

lemma PART_TABLE_size_check:
  "\<not> size_check (PART_TABLE sec) sz \<Longrightarrow> 0 < MIN_OS_PART_SIZE sec \<Longrightarrow> 0 < sz"
  by (simp add: size_check_def dynamic_partitions_def PART_TABLE_def)

text \<open>
  C8, amended: take a device whose four partitions match the template, are numbered in the
  order of the table and lie one after the other from sector 0, with free space after the
  last one. If the target size is at least every dynamic minimum, the last partition is
  shorter than the free space, and the target size is at least the length of the third
  partition and at most the free space less two sectors, then the run finishes without a
  fatal exit and leaves no free region on the device.
\<close>

theorem contiguous_run_fills_device:
  assumes sec: "sectorSize d \<noteq> 0"
    and lay: "check_layout (PART_TABLE (sectorSize d)) (partitions d) = None"
    and cont: "contiguous 0 1 (partitions d)"
    and size: "new_dynamic_part_size (PART_TABLE (sectorSize d)) d = Inr sz"
    and ok: "\<not> size_check (PART_TABLE (sectorSize d)) sz"
    and room4: "getLength (geom (partitions d ! 3)) < getLength (last (getFreeSpaceRegions d))"
    and len3: "getLength (geom (partitions d ! 2)) \<le> sz"
    and room3: "sz + 2 \<le> getLength (last (getFreeSpaceRegions d))"
  shows "\<exists>d'. expand_partitions d = Inr d' \<and> getFreeSpaceRegions d' = []"
proof -
  define L where "L = dev_length d"
  define bs where "bs = sectorSize d"
  define M where "M = MIN_OS_PART_SIZE (sectorSize d)"
  define tr where "tr = trace d"
  from size have dyn: "dynamic_partitions (PART_TABLE (sectorSize d)) \<noteq> []"
    and fr: "getFreeSpaceRegions d \<noteq> []"
    by (auto simp: new_dynamic_part_size_def Let_def split: if_splits)
  from PART_TABLE_dynamic [OF dyn]
  have M: "0 < M" and dn: "dynamic_part_nums (PART_TABLE (sectorSize d)) = [2, 3]"
    by (simp_all add: M_def)
  from PART_TABLE_size_check [OF ok] M have sz: "0 < sz" by (simp add: M_def)
  from lay have "length (partitions d) = 4"
    by (auto simp: check_layout_def expected_types_def actual_types_def PART_TABLE_def
          split: if_splits)
  then obtain p1 p2 p3 p4 where ps: "partitions d = [p1, p2, p3, p4]"
    by (auto simp: length_Suc_conv numeral_eq_Suc)
  define e1 where "e1 = g_end (geom p1)"
  define e2 where "e2 = g_end (geom p2)"
  define e3 where "e3 = g_end (geom p3)"
  define e4 where "e4 = g_end (geom p4)"
  define t1 where "t1 = fs_type p1"
  define t2 where "t2 = fs_type p2"
  define t3 where "t3 = fs_type p3"
  define t4 where "t4 = fs_type p4"
  from contiguous_4 [OF cont [unfolded ps]]
  have p: "p1 = mkp 1 0 e1 t1" "p2 = mkp 2 (e1 + 1) e2 t2" "p3 = mkp 3 (e2 + 1) e3 t3"
      "p4 = mkp 4 (e3 + 1) e4 t4"
    and ord: "0 \<le> e1" "e1 < e2" "e2 < e3" "e3 < e4"
    unfolding e1_def e2_def e3_def e4_def t1_def t2_def t3_def t4_def by blast+
  define d0 where "d0 = \<lparr>dev_length = L, sectorSize = bs,
                 partitions = [mkp 1 0 e1 t1, mkp 2 (e1 + 1) e2 t2, mkp 3 (e2 + 1) e3 t3,
                               mkp 4 (e3 + 1) e4 t4],
                 trace = tr\<rparr>"
  have d: "d = d0"
    using ps p by (simp add: L_def bs_def tr_def d0_def)
  have gaps: "getFreeSpaceRegions d
                = (if e4 + 1 \<le> L - 1 then [\<lparr>g_start = e4 + 1, g_end = L - 1\<rparr>] else [])"
    using ord by (simp add: d d0_def getFreeSpaceRegions_def mkp_def)
  with fr have free: "e4 + 1 \<le> L - 1"
    and lst: "last (getFreeSpaceRegions d) = \<lparr>g_start = e4 + 1, g_end = L - 1\<rparr>"
    by (simp_all split: if_splits)
  from room4 have r4: "e4 - e3 < L - 1 - e4"
    by (simp add: lst ps p getLength_def mkp_def)
  from len3 have l3: "e3 - e2 \<le> sz"
    by (simp add: ps p getLength_def mkp_def)
  from room3 have r3: "sz + 2 \<le> L - 1 - e4"
    by (simp add: lst getLength_def)
  define s4 where "s4 = L - 1 - (e4 - e3)"
  define s3 where "s3 = s4 - 1 - sz"
  have run: "expand_partitions d =
      reconcile [2, 3] sz
        [(3, ''fat'', ''fat32'', 0), (2, ''ext4'', ''ext2'', M),
         (1, ''ext4'', ''ext2'', M), (0, ''fat'', ''fat32'', 0)] d0"
    using sec lay size ok
    by (simp add: expand_partitions_def main_def dn PART_TABLE_rev M_def d [symmetric] del: reconcile.simps)
  define tr1 where "tr1 = tr @ [Copied ((e3 + 1) * bs) (s4 * bs) (max ((e4 - e3) * bs) 0),
                          Deleted 4, Committed, Added 4 s4 (L - 1) t4, Committed]"
  define tr2 where "tr2 = tr1 @ [Copied ((e2 + 1) * bs) (s3 * bs) (max ((e3 - e2) * bs) 0),
                          Deleted 3, Committed, Added 3 s3 (s3 + (e3 - e2)) t3, Committed,
                          Maximized 3 (s4 - 1), Committed, Ran ''/usr/sbin/resize2fs'' 3]"
  define tr3 where "tr3 = tr2 @ [Maximized 2 (s3 - 1), Committed, Ran ''/usr/sbin/resize2fs'' 2]"
  define dfin where "dfin = \<lparr>dev_length = L, sectorSize = bs,
       partitions = [mkp 1 0 e1 t1, mkp 2 (e1 + 1) (s3 - 1) t2, mkp 3 s3 (s4 - 1) t3,
                     mkp 4 s4 (L - 1) t4],
       trace = tr3\<rparr>"
  have s4L: "s4 \<le> L - 1" using ord by (simp add: s4_def)
  have r3': "e3 + 1 \<le> s4 - 1 - sz" using r3 by (simp add: s4_def)
  have full: "getFreeSpaceRegions dfin = []"
    unfolding dfin_def
    by (rule full_disk) (use ord r3' sz s4L in \<open>simp_all add: s3_def\<close>)
  have one: "reconcile [2, 3] sz
        [(3, ''fat'', ''fat32'', 0), (2, ''ext4'', ''ext2'', M),
         (1, ''ext4'', ''ext2'', M), (0, ''fat'', ''fat32'', 0)] d0
      = reconcile [2, 3] sz
        [(2, ''ext4'', ''ext2'', M), (1, ''ext4'', ''ext2'', M), (0, ''fat'', ''fat32'', 0)]
        \<lparr>dev_length = L, sectorSize = bs,
         partitions = [mkp 1 0 e1 t1, mkp 2 (e1 + 1) e2 t2, mkp 3 (e2 + 1) e3 t3,
                       mkp 4 s4 (L - 1) t4],
         trace = tr1\<rparr>"
    unfolding d0_def tr1_def s4_def by (rule step3 [OF ord r4])
  have two: "reconcile [2, 3] sz
        [(2, ''ext4'', ''ext2'', M), (1, ''ext4'', ''ext2'', M), (0, ''fat'', ''fat32'', 0)]
        \<lparr>dev_length = L, sectorSize = bs,
         partitions = [mkp 1 0 e1 t1, mkp 2 (e1 + 1) e2 t2, mkp 3 (e2 + 1) e3 t3,
                       mkp 4 s4 (L - 1) t4],
         trace = tr1\<rparr>
      = reconcile [2, 3] sz
        [(1, ''ext4'', ''ext2'', M), (0, ''fat'', ''fat32'', 0)]
        \<lparr>dev_length = L, sectorSize = bs,
         partitions = [mkp 1 0 e1 t1, mkp 2 (e1 + 1) e2 t2, mkp 3 s3 (s4 - 1) t3,
                       mkp 4 s4 (L - 1) t4],
         trace = tr2\<rparr>"
    unfolding tr2_def s3_def
    by (rule step2 [OF ord(1,2,3) s4L l3 r3' M]) (use sz in simp)
  have three: "reconcile [2, 3] sz
        [(1, ''ext4'', ''ext2'', M), (0, ''fat'', ''fat32'', 0)]
        \<lparr>dev_length = L, sectorSize = bs,
         partitions = [mkp 1 0 e1 t1, mkp 2 (e1 + 1) e2 t2, mkp 3 s3 (s4 - 1) t3,
                       mkp 4 s4 (L - 1) t4],
         trace = tr2\<rparr>
      = reconcile [2, 3] sz [(0, ''fat'', ''fat32'', 0)] dfin"
    unfolding dfin_def tr3_def
    by (rule step1 [OF ord(1,2) _ _ _ s4L M]) (use ord r3' sz in \<open>simp_all add: s3_def\<close>)
  have four: "reconcile [2, 3] sz [(0, ''fat'', ''fat32'', 0)] dfin = Inr dfin"
    using full by simp
  from run one two three four have "expand_partitions d = Inr dfin" by (simp only:)
  with full show ?thesis by blast
qed

theorem contiguous_run_fills_device_witness:
  "\<exists>d'. expand_partitions fresh_image = Inr d' \<and> getFreeSpaceRegions d' = []"
proof (rule contiguous_run_fills_device [where sz = 15795200])
  show "sectorSize fresh_image \<noteq> 0" by code_simp
  show "check_layout (PART_TABLE (sectorSize fresh_image)) (partitions fresh_image) = None"
    by code_simp
  show "contiguous 0 1 (partitions fresh_image)" by code_simp
  show "new_dynamic_part_size (PART_TABLE (sectorSize fresh_image)) fresh_image = Inr 15795200"
    by code_simp
  show "\<not> size_check (PART_TABLE (sectorSize fresh_image)) 15795200" by code_simp
  show "getLength (geom (partitions fresh_image ! 3))
          < getLength (last (getFreeSpaceRegions fresh_image))" by code_simp
  show "getLength (geom (partitions fresh_image ! 2)) \<le> 15795200" by code_simp
  show "15795200 + 2 \<le> getLength (last (getFreeSpaceRegions fresh_image))" by code_simp
qed

text \<open>
  C8, as stated, fails: the device of the end-to-end scenario has a valid, contiguous
  layout and a target size of 15 795 200 sectors, above the minimum of 8 388 608, yet the
  run ends in a fatal exit and leaves sectors 20 982 016 to 31 795 198 free.
\<close>

theorem valid_layout_run_is_fatal:
  "check_layout (PART_TABLE 512) (partitions scenario) = None
   \<and> contiguous 0 1 (partitions scenario)
   \<and> new_dynamic_part_size (PART_TABLE 512) scenario = Inr 15795200
   \<and> \<not> size_check (PART_TABLE 512) 15795200
   \<and> isl (expand_partitions scenario)
   \<and> getFreeSpaceRegions (final_disk (expand_partitions scenario))
       = [\<lparr>g_start = 20982016, g_end = 31795198\<rparr>]"
  by code_simp

end
